theory Spec2Isabelle
  imports Complex_Main
begin

section \<open>JavaScript numbers\<close>

text \<open>
  The player keeps times, percentages, volume and rate as JavaScript numbers. The
  properties studied here turn on the special values (\<open>NaN\<close>, the infinities, division
  by zero) and on comparisons, so a number is \<open>NaN\<close>, an infinity or a finite value.
  Finite values are exact rationals: rounding is not modelled, and the two signed zeros
  are one value (a zero divisor acts as \<open>+0\<close>).
\<close>

datatype num = NaN | NInf | Fin rat | PInf

fun js_neg :: "num \<Rightarrow> num" where
  "js_neg NaN = NaN"
| "js_neg NInf = PInf"
| "js_neg (Fin a) = Fin (- a)"
| "js_neg PInf = NInf"

text \<open>\<open>a + b\<close>: \<open>NaN\<close> is absorbing, and \<open>Infinity + -Infinity\<close> is \<open>NaN\<close>.\<close>

fun js_add :: "num \<Rightarrow> num \<Rightarrow> num" where
  "js_add NaN _ = NaN"
| "js_add _ NaN = NaN"
| "js_add (Fin a) (Fin b) = Fin (a + b)"
| "js_add PInf NInf = NaN"
| "js_add NInf PInf = NaN"
| "js_add PInf _ = PInf"
| "js_add _ PInf = PInf"
| "js_add NInf _ = NInf"
| "js_add _ NInf = NInf"

text \<open>\<open>a * b\<close>: \<open>0 * Infinity\<close> is \<open>NaN\<close>; otherwise the sign rule applies.\<close>

fun js_mul :: "num \<Rightarrow> num \<Rightarrow> num" where
  "js_mul NaN _ = NaN"
| "js_mul _ NaN = NaN"
| "js_mul (Fin a) (Fin b) = Fin (a * b)"
| "js_mul (Fin a) y = (if a = 0 then NaN else if 0 < a then y else js_neg y)"
| "js_mul x (Fin b) = (if b = 0 then NaN else if 0 < b then x else js_neg x)"
| "js_mul x y = (if x = y then PInf else NInf)"

text \<open>
  \<open>a / b\<close>: \<open>0 / 0\<close> and \<open>Infinity / Infinity\<close> are \<open>NaN\<close>, a non-zero value over
  zero is an infinity, a finite value over an infinity is zero.
\<close>

fun js_div :: "num \<Rightarrow> num \<Rightarrow> num" where
  "js_div NaN _ = NaN"
| "js_div _ NaN = NaN"
| "js_div (Fin a) (Fin b) =
     (if b = 0 then (if a = 0 then NaN else if 0 < a then PInf else NInf)
      else Fin (a / b))"
| "js_div (Fin a) _ = Fin 0"
| "js_div x (Fin b) = (if 0 \<le> b then x else js_neg x)"
| "js_div _ _ = NaN"

text \<open>The order on numbers other than \<open>NaN\<close>.\<close>

fun num_le :: "num \<Rightarrow> num \<Rightarrow> bool" where
  "num_le NaN _ = False"
| "num_le _ NaN = False"
| "num_le NInf _ = True"
| "num_le _ PInf = True"
| "num_le (Fin a) (Fin b) = (a \<le> b)"
| "num_le _ _ = False"

text \<open>\<open>Math.max\<close> and \<open>Math.min\<close> of two arguments return \<open>NaN\<close> if either is \<open>NaN\<close>.\<close>

definition math_max :: "num \<Rightarrow> num \<Rightarrow> num" where
  "math_max a b = (if a = NaN \<or> b = NaN then NaN else if num_le a b then b else a)"

definition math_min :: "num \<Rightarrow> num \<Rightarrow> num" where
  "math_min a b = (if a = NaN \<or> b = NaN then NaN else if num_le a b then a else b)"

text \<open>\<open>a === b\<close> on numbers: \<open>NaN\<close> equals nothing, itself included.\<close>

definition js_strict_eq :: "num \<Rightarrow> num \<Rightarrow> bool" where
  "js_strict_eq a b = (if a = NaN \<or> b = NaN then False else a = b)"

text \<open>The finite numbers.\<close>

fun is_finite :: "num \<Rightarrow> bool" where
  "is_finite (Fin a) = True"
| "is_finite _ = False"

text \<open>A number is a percentage when it is finite and between 0 and 100.\<close>

fun is_percent :: "num \<Rightarrow> bool" where
  "is_percent (Fin a) = (0 \<le> a \<and> a \<le> 100)"
| "is_percent _ = False"

text \<open>A valid volume is finite and between 0 and 1.\<close>

fun in_unit_range :: "num \<Rightarrow> bool" where
  "in_unit_range (Fin a) = (0 \<le> a \<and> a \<le> 1)"
| "in_unit_range _ = False"

text \<open>A valid playback rate is finite and positive.\<close>

fun positive_finite :: "num \<Rightarrow> bool" where
  "positive_finite (Fin a) = (0 < a)"
| "positive_finite _ = False"


section \<open>The video element and the player state\<close>

text \<open>
  What \<open>useVideoPlayer\<close> reads from the \<open>HTMLVideoElement\<close> behind \<open>videoRef.current\<close>:
  its current time, its duration (\<open>NaN\<close> until the metadata is loaded) and its buffered
  time ranges, each a pair of start and end. \<open>el_supportsRate\<close> is the set of finite
  playback rates the user agent behind the element supports; it differs between
  user agents.
\<close>

record video =
  el_currentTime :: num
  el_duration :: num
  el_buffered :: "(num \<times> num) list"
  el_supportsRate :: "rat \<Rightarrow> bool"

text \<open>The record held by \<open>useState\<close>, with the field names of the source.\<close>

record videoState =
  isPlaying :: bool
  volume :: num
  isMuted :: bool
  progress :: num
  isFullscreen :: bool
  playbackRate :: num
  currentTime :: num
  duration :: num
  buffered :: num

definition initial_state :: videoState where
  "initial_state =
     \<lparr>isPlaying = False, volume = Fin 1, isMuted = False, progress = Fin 0,
      isFullscreen = False, playbackRate = Fin 1, currentTime = Fin 0,
      duration = Fin 0, buffered = Fin 0\<rparr>"

text \<open>
  The element is outside the program: a handler's writes to it and calls on it are
  recorded, in order, as the effects the handler issues. \<open>OnTimeUpdate\<close> is the call of
  the optional \<open>onTimeUpdate\<close> callback.
\<close>

datatype effect =
    Play
  | Pause
  | SetVolume num
  | SetMuted bool
  | SetCurrentTime num
  | SetPlaybackRate num
  | RequestFullscreen
  | ExitFullscreen
  | OnTimeUpdate num

text \<open>
  Two of the element's setters are followed by a state update in their handler, so
  whether they accept the value decides what the handler does to the state. Both take
  a \<open>double\<close>: a value that is not finite raises \<open>TypeError\<close>. The \<open>volume\<close> setter
  raises \<open>IndexSizeError\<close> for a value outside \<open>[0, 1]\<close>; the \<open>playbackRate\<close> setter
  raises \<open>NotSupportedError\<close> for a rate the user agent does not support. A setter that
  raises writes nothing.
\<close>

datatype dom_exception = TypeError | IndexSizeError | NotSupportedError

fun set_volume :: "num \<Rightarrow> dom_exception + effect" where
  "set_volume (Fin a) =
     (if 0 \<le> a \<and> a \<le> 1 then Inr (SetVolume (Fin a)) else Inl IndexSizeError)"
| "set_volume _ = Inl TypeError"

fun set_playbackRate :: "video \<Rightarrow> num \<Rightarrow> dom_exception + effect" where
  "set_playbackRate el (Fin r) =
     (if el_supportsRate el r then Inr (SetPlaybackRate (Fin r)) else Inl NotSupportedError)"
| "set_playbackRate el _ = Inl TypeError"

text \<open>The rates an element accepts: the finite ones its user agent supports.\<close>

fun accepts_rate :: "video \<Rightarrow> num \<Rightarrow> bool" where
  "accepts_rate el (Fin r) = el_supportsRate el r"
| "accepts_rate el _ = False"


section \<open>The handlers of \<open>useVideoPlayer\<close>\<close>

text \<open>
  Every handler takes \<open>videoRef.current\<close> (\<open>None\<close> while no element is mounted) and the
  state that \<open>setVideoState\<close>'s updater receives as \<open>prev\<close>, and returns the effects
  issued with the state after the update. \<open>togglePlayPause\<close> and \<open>toggleMute\<close> also read
  the \<open>videoState\<close> captured by the callback when the component last rendered; it is
  their second argument. After a render the captured state is the committed one, and
  a call passes the same state twice; a callback called again before the component has
  rendered still holds the state of its render, while \<open>prev\<close> is the state the call
  before it left.

  \<open>handleVolumeChange\<close> and \<open>handlePlaybackRateChange\<close> write to the element through
  a setter that can raise, before they update the state. Their result is \<open>Inl e\<close> when
  the exception \<open>e\<close> leaves the handler: the element is not written and
  \<open>setVideoState\<close> is not reached, so the state stays \<open>prev\<close>. The other writes are
  recorded as issued.
\<close>

definition togglePlayPause ::
  "video option \<Rightarrow> videoState \<Rightarrow> videoState \<Rightarrow> effect list \<times> videoState" where
  "togglePlayPause videoRef captured prev =
     (case videoRef of
        None \<Rightarrow> ([], prev)
      | Some el \<Rightarrow>
          ([if isPlaying captured then Pause else Play],
           prev\<lparr>isPlaying := \<not> isPlaying prev\<rparr>))"

text \<open>
  \<open>handleVolumeChange\<close> and \<open>handleSeek\<close> receive the result of
  \<open>parseFloat(event.target.value)\<close>, which may be any number, \<open>NaN\<close> included.
\<close>

definition handleVolumeChange ::
  "video option \<Rightarrow> num \<Rightarrow> videoState \<Rightarrow> dom_exception + effect list \<times> videoState" where
  "handleVolumeChange videoRef newVolume prev =
     (case videoRef of
        None \<Rightarrow> Inr ([], prev)
      | Some el \<Rightarrow>
          (case set_volume newVolume of
             Inl e \<Rightarrow> Inl e
           | Inr written \<Rightarrow>
               Inr ([written],
                    prev\<lparr>volume := newVolume,
                         isMuted := js_strict_eq newVolume (Fin 0)\<rparr>)))"

definition toggleMute ::
  "video option \<Rightarrow> videoState \<Rightarrow> videoState \<Rightarrow> effect list \<times> videoState" where
  "toggleMute videoRef captured prev =
     (case videoRef of
        None \<Rightarrow> ([], prev)
      | Some el \<Rightarrow>
          (let muted = \<not> isMuted captured
           in ([SetMuted muted], prev\<lparr>isMuted := muted\<rparr>)))"

text \<open>
  \<open>buffered.length ? buffered.end(buffered.length - 1) : 0\<close>: the end of the last
  buffered range.
\<close>

definition buffered_end :: "(num \<times> num) list \<Rightarrow> num" where
  "buffered_end ranges = (if ranges = [] then Fin 0 else snd (last ranges))"

text \<open>The flag \<open>hasCallback\<close> says whether \<open>onTimeUpdate\<close> was passed to the hook.\<close>

definition handleTimeUpdate ::
  "video option \<Rightarrow> bool \<Rightarrow> videoState \<Rightarrow> effect list \<times> videoState" where
  "handleTimeUpdate videoRef hasCallback prev =
     (case videoRef of
        None \<Rightarrow> ([], prev)
      | Some el \<Rightarrow>
          (let t = el_currentTime el;
               d = el_duration el;
               b = buffered_end (el_buffered el)
           in (if hasCallback then [OnTimeUpdate t] else [],
               prev\<lparr>currentTime := t, duration := d,
                    progress := js_mul (js_div t d) (Fin 100),
                    buffered := js_mul (js_div b d) (Fin 100)\<rparr>)))"

definition handleSeek ::
  "video option \<Rightarrow> num \<Rightarrow> videoState \<Rightarrow> effect list \<times> videoState" where
  "handleSeek videoRef val prev =
     (case videoRef of
        None \<Rightarrow> ([], prev)
      | Some el \<Rightarrow>
          ([SetCurrentTime (js_mul (js_div val (Fin 100)) (el_duration el))], prev))"

text \<open>
  \<open>docFullscreen\<close> says whether \<open>document.fullscreenElement\<close> is set. The promises of
  the two requests are only given \<open>console.error\<close> as rejection handler, which is not
  recorded.
\<close>

definition toggleFullscreen ::
  "video option \<Rightarrow> bool \<Rightarrow> videoState \<Rightarrow> effect list \<times> videoState" where
  "toggleFullscreen videoRef docFullscreen prev =
     (case videoRef of
        None \<Rightarrow> ([], prev)
      | Some el \<Rightarrow>
          (if \<not> docFullscreen
           then ([RequestFullscreen], prev\<lparr>isFullscreen := True\<rparr>)
           else ([ExitFullscreen], prev\<lparr>isFullscreen := False\<rparr>)))"

definition handleSkip ::
  "video option \<Rightarrow> num \<Rightarrow> videoState \<Rightarrow> effect list \<times> videoState" where
  "handleSkip videoRef time prev =
     (case videoRef of
        None \<Rightarrow> ([], prev)
      | Some el \<Rightarrow>
          ([SetCurrentTime
              (math_min (math_max (js_add (el_currentTime el) time) (Fin 0))
                        (el_duration el))],
           prev))"

definition handlePlaybackRateChange ::
  "video option \<Rightarrow> num \<Rightarrow> videoState \<Rightarrow> dom_exception + effect list \<times> videoState" where
  "handlePlaybackRateChange videoRef rate prev =
     (case videoRef of
        None \<Rightarrow> Inr ([], prev)
      | Some el \<Rightarrow>
          (case set_playbackRate el rate of
             Inl e \<Rightarrow> Inl e
           | Inr written \<Rightarrow> Inr ([written], prev\<lparr>playbackRate := rate\<rparr>)))"

definition restartVideo ::
  "video option \<Rightarrow> videoState \<Rightarrow> effect list \<times> videoState" where
  "restartVideo videoRef prev =
     (case videoRef of
        None \<Rightarrow> ([], prev)
      | Some el \<Rightarrow> ([SetCurrentTime (Fin 0)], prev\<lparr>progress := Fin 0\<rparr>))"


section \<open>The slide viewer\<close>

text \<open>
  Slide indices are small whole numbers, on which JavaScript arithmetic is exact, so
  they are integers here. \<open>a % b\<close> takes the sign of the dividend, and is \<open>NaN\<close>
  (\<open>None\<close>) for a zero divisor.
\<close>

definition js_rem :: "int \<Rightarrow> int \<Rightarrow> int option" where
  "js_rem a b = (if b = 0 then None else Some (sgn a * (\<bar>a\<bar> mod \<bar>b\<bar>)))"

definition changeImage :: "int \<Rightarrow> 'a list \<Rightarrow> int \<Rightarrow> int option" where
  "changeImage direction images prevIndex =
     js_rem (prevIndex + direction + int (length images)) (int (length images))"


section \<open>Reference values of the specification\<close>

text \<open>\<open>clamp(x, lo, hi)\<close> on finite values, as the specification of \<open>skip\<close> words it.\<close>

definition clamp_spec :: "rat \<Rightarrow> rat \<Rightarrow> rat \<Rightarrow> rat" where
  "clamp_spec x lo hi = (if x < lo then lo else if hi < x then hi else x)"

text \<open>
  An element with 5 seconds played of 120, and one whose metadata is not loaded. Their
  user agent supports every finite rate.
\<close>

definition loaded_video :: video where
  "loaded_video =
     \<lparr>el_currentTime = Fin 5, el_duration = Fin 120, el_buffered = [(Fin 0, Fin 30)],
      el_supportsRate = (\<lambda>r. True)\<rparr>"

definition unloaded_video :: video where
  "unloaded_video =
     \<lparr>el_currentTime = Fin 0, el_duration = NaN, el_buffered = [],
      el_supportsRate = (\<lambda>r. True)\<rparr>"

text \<open>An element that reports a duration of zero.\<close>

definition zero_length_video :: video where
  "zero_length_video =
     \<lparr>el_currentTime = Fin 0, el_duration = Fin 0, el_buffered = [],
      el_supportsRate = (\<lambda>r. True)\<rparr>"

text \<open>Three slide images.\<close>

definition three_slides :: "string list" where
  "three_slides = [''slide1.png'', ''slide2.png'', ''slide3.png'']"


section \<open>Time updates\<close>

text \<open>
  With a positive duration and a current time within it, the recomputed progress is the
  percentage \<open>100 \<sqdot> currentTime / duration\<close> and lies between 0 and 100; the same holds of
  the buffered percentage when the buffered edge is within the duration.
\<close>

lemma handleTimeUpdate_progress_in_range:
  assumes "el_currentTime el = Fin t" and "el_duration el = Fin d"
    and "0 \<le> t" and "t \<le> d" and "0 < d"
  shows "progress (snd (handleTimeUpdate (Some el) cb st)) = Fin (t / d * 100)
         \<and> is_percent (progress (snd (handleTimeUpdate (Some el) cb st)))"
proof -
  have "t * 100 / d \<le> 100" using assms by (simp add: pos_divide_le_eq)
  moreover have "0 \<le> t * 100 / d" using assms by simp
  ultimately show ?thesis using assms by (simp add: handleTimeUpdate_def Let_def)
qed

lemma handleTimeUpdate_buffered_in_range:
  assumes "buffered_end (el_buffered el) = Fin b" and "el_duration el = Fin d"
    and "0 \<le> b" and "b \<le> d" and "0 < d"
  shows "is_percent (buffered (snd (handleTimeUpdate (Some el) cb st)))"
proof -
  have "b * 100 / d \<le> 100" using assms by (simp add: pos_divide_le_eq)
  moreover have "0 \<le> b * 100 / d" using assms by simp
  ultimately show ?thesis using assms by (simp add: handleTimeUpdate_def Let_def)
qed

text \<open>
  Claim C1: on a time update, a duration that is \<open>NaN\<close> or \<open>0\<close> should give a progress
  and a buffered percentage of \<open>0\<close>, and both percentages should always lie in
  \<open>[0, 100]\<close>. \<open>handleTimeUpdate\<close> divides by the duration without a guard: for an
  element whose metadata is not loaded, and for one of duration zero at time zero, both
  percentages are \<open>NaN\<close>, which is not a percentage.
\<close>

theorem handleTimeUpdate_unguarded:
  "progress (snd (handleTimeUpdate (Some unloaded_video) False initial_state)) = NaN
   \<and> buffered (snd (handleTimeUpdate (Some unloaded_video) False initial_state)) = NaN
   \<and> progress (snd (handleTimeUpdate (Some zero_length_video) False initial_state)) = NaN
   \<and> buffered (snd (handleTimeUpdate (Some zero_length_video) False initial_state)) = NaN
   \<and> \<not> is_percent NaN"
  by (simp add: handleTimeUpdate_def unloaded_video_def zero_length_video_def
      buffered_end_def Let_def)


section \<open>Play and pause\<close>

text \<open>
  \<open>togglePlayPause\<close> chooses the command from the captured state and flips the flag
  of the updater's state. When the component has rendered between two calls, so that
  each call captures the state the one before it left, the two calls issue opposite
  commands and after each the flag is what the command just issued implies.
\<close>

lemma togglePlayPause_after_render:
  "(case togglePlayPause (Some el) s s of
      (issued1, s1) \<Rightarrow>
        (case togglePlayPause (Some el) s1 s1 of
           (issued2, s2) \<Rightarrow>
             issued1 @ issued2 = (if isPlaying s then [Pause, Play] else [Play, Pause])
             \<and> isPlaying s1 = (last issued1 = Play)
             \<and> isPlaying s2 = (last (issued1 @ issued2) = Play)))"
  by (simp add: togglePlayPause_def)

text \<open>
  When one callback is called twice before the component renders again, both calls
  read the same captured flag and issue the same command, while the updater flips the
  flag twice: it returns to where it began, whatever it was.
\<close>

lemma togglePlayPause_same_callback:
  "(case togglePlayPause (Some el) s s of
      (issued1, s1) \<Rightarrow>
        (case togglePlayPause (Some el) s s1 of
           (issued2, s2) \<Rightarrow>
             issued1 = issued2
             \<and> isPlaying s2 = isPlaying s
             \<and> isPlaying s2 = (last (issued1 @ issued2) \<noteq> Play)))"
  by (simp add: togglePlayPause_def)



section \<open>Seeking\<close>

text \<open>
  Claim C3, as amended: \<open>handleSeek\<close> never changes the player state; when the
  element's duration is a finite number and so is the percentage, it issues exactly one
  absolute seek, to \<open>percent / 100 \<sqdot> duration\<close>.
\<close>

theorem handleSeek_known_duration:
  assumes "el_duration el = Fin d"
  shows "handleSeek (Some el) (Fin p) st = ([SetCurrentTime (Fin (p / 100 * d))], st)"
  using assms by (simp add: handleSeek_def)

theorem handleSeek_known_duration_witness:
  "el_duration loaded_video = Fin 120
   \<and> handleSeek (Some loaded_video) (Fin 50) initial_state
       = ([SetCurrentTime (Fin 60)], initial_state)"
  using handleSeek_known_duration [of loaded_video 120 50 initial_state]
  by (simp add: loaded_video_def)

text \<open>
  The claim as first stated also makes \<open>seek\<close> do nothing while the duration is unknown.
  There is no such guard: with the duration \<open>NaN\<close> the handler still writes the element's
  current time, and the value written is \<open>NaN\<close>.
\<close>

theorem handleSeek_unknown_duration:
  "handleSeek (Some unloaded_video) (Fin 50) initial_state
     = ([SetCurrentTime NaN], initial_state)
   \<and> fst (handleSeek (Some unloaded_video) (Fin 50) initial_state) \<noteq> []"
  by (simp add: handleSeek_def unloaded_video_def)

lemma handleSeek_state_unchanged:
  "snd (handleSeek videoRef val st) = st"
  by (simp add: handleSeek_def split: option.split)


section \<open>Skipping\<close>

text \<open>
  Claim C4, as amended: when the element's current time and duration are finite and
  the duration is not negative, \<open>handleSkip\<close> with a finite number of seconds sets the
  element's current time to \<open>clamp(currentTime + deltaSeconds, 0, duration)\<close>, and
  leaves the player state as it is.
\<close>

theorem handleSkip_known_duration:
  assumes "el_currentTime el = Fin t" and "el_duration el = Fin d" and "0 \<le> d"
  shows "handleSkip (Some el) (Fin delta) st
           = ([SetCurrentTime (Fin (clamp_spec (t + delta) 0 d))], st)"
  using assms by (simp add: handleSkip_def math_min_def math_max_def clamp_spec_def)

theorem handleSkip_known_duration_witness:
  "el_currentTime loaded_video = Fin 5 \<and> el_duration loaded_video = Fin 120
   \<and> (0::rat) \<le> 120
   \<and> handleSkip (Some loaded_video) (Fin (- 10)) initial_state
        = ([SetCurrentTime (Fin 0)], initial_state)"
  using handleSkip_known_duration [of loaded_video 5 120 "- 10" initial_state]
  by (simp add: loaded_video_def clamp_spec_def)

text \<open>Ten seconds forward from 115 of 120 stops at the duration.\<close>

lemma handleSkip_forward_example:
  "handleSkip (Some (loaded_video\<lparr>el_currentTime := Fin 115\<rparr>)) (Fin 10) initial_state
     = ([SetCurrentTime (Fin 120)], initial_state)"
  by (simp add: handleSkip_def loaded_video_def math_min_def math_max_def)

text \<open>
  The claim as first stated also has \<open>skip\<close> clamp only from below while the duration
  is unknown. \<open>Math.min\<close> is applied to the duration in every case: at 5 seconds with
  the duration \<open>NaN\<close>, skipping 10 seconds writes \<open>NaN\<close>, not 15.
\<close>

theorem handleSkip_unknown_duration:
  "fst (handleSkip (Some (unloaded_video\<lparr>el_currentTime := Fin 5\<rparr>)) (Fin 10) initial_state)
     = [SetCurrentTime NaN]
   \<and> NaN \<noteq> Fin 15"
  by (simp add: handleSkip_def unloaded_video_def math_min_def math_max_def)


section \<open>Volume and mute\<close>

text \<open>
  Claim C5, as amended: with an element attached, \<open>handleVolumeChange\<close> neither clamps
  nor ignores a value: it hands it to the element. A value in \<open>[0, 1]\<close> is written to
  the element and stored as \<open>volume\<close>, and after that successful call \<open>isMuted\<close> holds
  exactly when the value is \<open>0\<close>. Any other value is refused by the element's setter,
  whose exception leaves the handler; then nothing is written and the state is not
  updated, so no value outside \<open>[0, 1]\<close> becomes the element's volume or the state's.
\<close>

theorem handleVolumeChange_result:
  "(case handleVolumeChange (Some el) v st of
      Inl e \<Rightarrow> \<not> in_unit_range v
    | Inr (issued, st') \<Rightarrow>
        in_unit_range v
        \<and> issued = [SetVolume v]
        \<and> st' = st\<lparr>volume := v, isMuted := (v = Fin 0)\<rparr>)"
proof (cases v)
  case (Fin a)
  then show ?thesis by (simp add: handleVolumeChange_def js_strict_eq_def)
qed (simp_all add: handleVolumeChange_def)

text \<open>
  The claim as first stated has a value outside \<open>[0, 1]\<close> clamped or ignored. A volume
  of 2 is neither: the handler does not return, it fails with the setter's
  \<open>IndexSizeError\<close>.
\<close>

theorem handleVolumeChange_out_of_range:
  "handleVolumeChange (Some loaded_video) (Fin 2) initial_state = Inl IndexSizeError
   \<and> \<not> in_unit_range (Fin 2)"
  by (simp add: handleVolumeChange_def)

text \<open>
  A volume of 0 mutes; a volume of one half after a mute unmutes; a volume that is not
  a number fails with \<open>TypeError\<close>.
\<close>

lemma handleVolumeChange_examples:
  "handleVolumeChange (Some el) (Fin 0) st
     = Inr ([SetVolume (Fin 0)], st\<lparr>volume := Fin 0, isMuted := True\<rparr>)"
  "handleVolumeChange (Some el) (Fin (1 / 2)) (st\<lparr>isMuted := True\<rparr>)
     = Inr ([SetVolume (Fin (1 / 2))], st\<lparr>volume := Fin (1 / 2), isMuted := False\<rparr>)"
  "handleVolumeChange (Some el) NaN st = Inl TypeError"
  by (simp_all add: handleVolumeChange_def js_strict_eq_def)

text \<open>
  \<open>toggleMute\<close> sends the negation of the captured \<open>isMuted\<close> to the element and stores
  it, and changes no other field, \<open>volume\<close> included. When the component has rendered
  between two calls, the second call gives back the state before the first.
\<close>

lemma toggleMute_after_render:
  "(case toggleMute (Some el) s s of
      (issued1, s1) \<Rightarrow>
        issued1 = [SetMuted (\<not> isMuted s)]
        \<and> isMuted s1 = (\<not> isMuted s)
        \<and> volume s1 = volume s
        \<and> s1 = s\<lparr>isMuted := \<not> isMuted s\<rparr>
        \<and> snd (toggleMute (Some el) s1 s1) = s)"
  by (simp add: toggleMute_def Let_def)

text \<open>
  Each call leaves the volume alone, whatever state it captured; but a callback called
  again before the component renders stores the same negation a second time.
\<close>

lemma toggleMute_same_callback:
  "(case toggleMute (Some el) s s of
      (issued1, s1) \<Rightarrow>
        (case toggleMute (Some el) s s1 of
           (issued2, s2) \<Rightarrow>
             issued1 = issued2
             \<and> isMuted s2 = (\<not> isMuted s)
             \<and> volume s2 = volume s))"
  by (simp add: toggleMute_def Let_def)



section \<open>Playback rate\<close>

text \<open>
  Claim C6, as amended: with an element attached, \<open>handlePlaybackRateChange\<close> checks
  nothing itself and hands the rate to the element. A rate that is not finite, or that
  the user agent does not support, is refused by the element's setter, whose exception
  leaves the handler; then the element is not written and the state is not updated.
  Every other rate, positive or not, is written to the element and stored in
  \<open>playbackRate\<close>, and no other field changes.
\<close>

theorem handlePlaybackRateChange_result:
  "(case handlePlaybackRateChange (Some el) rate st of
      Inl e \<Rightarrow> \<not> accepts_rate el rate \<and> (e = TypeError) = (\<not> is_finite rate)
    | Inr (issued, st') \<Rightarrow>
        accepts_rate el rate
        \<and> issued = [SetPlaybackRate rate]
        \<and> st' = st\<lparr>playbackRate := rate\<rparr>)"
proof (cases rate)
  case (Fin r)
  then show ?thesis by (simp add: handlePlaybackRateChange_def)
qed (simp_all add: handlePlaybackRateChange_def)

text \<open>
  The claim as first stated has every rate that is not positive rejected, with no
  write to the element and no change of state. On an element that supports them, the
  rates \<open>0\<close> and \<open>-1\<close> are written to the element and stored.
\<close>

theorem handlePlaybackRateChange_nonpositive:
  "handlePlaybackRateChange (Some loaded_video) (Fin (- 1)) initial_state
     = Inr ([SetPlaybackRate (Fin (- 1))], initial_state\<lparr>playbackRate := Fin (- 1)\<rparr>)
   \<and> handlePlaybackRateChange (Some loaded_video) (Fin 0) initial_state
     = Inr ([SetPlaybackRate (Fin 0)], initial_state\<lparr>playbackRate := Fin 0\<rparr>)
   \<and> \<not> positive_finite (Fin (- 1))
   \<and> \<not> positive_finite (Fin 0)
   \<and> initial_state\<lparr>playbackRate := Fin (- 1)\<rparr> \<noteq> initial_state"
  by (simp add: handlePlaybackRateChange_def loaded_video_def initial_state_def)

text \<open>A rate that is not a number, or is infinite, fails with \<open>TypeError\<close>.\<close>

lemma handlePlaybackRateChange_not_finite:
  "handlePlaybackRateChange (Some el) NaN st = Inl TypeError"
  "handlePlaybackRateChange (Some el) PInf st = Inl TypeError"
  "handlePlaybackRateChange (Some el) NInf st = Inl TypeError"
  by (simp_all add: handlePlaybackRateChange_def)


section \<open>Restart\<close>

text \<open>
  Claim C8: with an element attached, \<open>restartVideo\<close> sets the element's current time
  to \<open>0\<close> and the state's \<open>progress\<close> to \<open>0\<close>, whatever \<open>isPlaying\<close> was, and changes
  no other field of the state, \<open>isPlaying\<close> included.
\<close>

theorem restartVideo_effect:
  "fst (restartVideo (Some el) st) = [SetCurrentTime (Fin 0)]
   \<and> progress (snd (restartVideo (Some el) st)) = Fin 0
   \<and> isPlaying (snd (restartVideo (Some el) st)) = isPlaying st
   \<and> snd (restartVideo (Some el) st) = st\<lparr>progress := Fin 0\<rparr>"
  by (simp add: restartVideo_def)


section \<open>No element attached\<close>

text \<open>
  Claim C9: while \<open>videoRef.current\<close> is empty, each of the nine handlers issues no
  effect and returns the state it was given; none of them has a failing branch.
\<close>

theorem unattached_noop:
  "togglePlayPause None captured st = ([], st)
   \<and> handleVolumeChange None v st = Inr ([], st)
   \<and> toggleMute None captured st = ([], st)
   \<and> handleSeek None v st = ([], st)
   \<and> handleSkip None v st = ([], st)
   \<and> handlePlaybackRateChange None v st = Inr ([], st)
   \<and> restartVideo None st = ([], st)
   \<and> toggleFullscreen None fs st = ([], st)
   \<and> handleTimeUpdate None cb st = ([], st)"
  by (simp add: togglePlayPause_def handleVolumeChange_def toggleMute_def handleSeek_def
      handleSkip_def handlePlaybackRateChange_def restartVideo_def toggleFullscreen_def
      handleTimeUpdate_def)


section \<open>Changing slides\<close>

text \<open>On a dividend that is not negative and a positive divisor, \<open>%\<close> is \<open>mod\<close>.\<close>

lemma js_rem_nonneg:
  assumes "0 \<le> a" and "0 < b"
  shows "js_rem a b = Some (a mod b)"
proof (cases "a = 0")
  case True
  then show ?thesis using assms by (simp add: js_rem_def)
next
  case False
  then have "0 < a" using assms by simp
  then show ?thesis using assms by (simp add: js_rem_def)
qed

text \<open>
  Claim C10: for a non-empty list of images, an index within it and a direction of
  \<open>1\<close> or \<open>-1\<close>, \<open>changeImage\<close> gives an index within the list again: the next one, or
  the first after the last, for \<open>1\<close>; the previous one, or the last before the first,
  for \<open>-1\<close>.
\<close>

theorem changeImage_in_range:
  assumes "images \<noteq> []" and "0 \<le> i" and "i < int (length images)"
    and "direction = 1 \<or> direction = - 1"
  shows "changeImage direction images i =
           Some (if direction = 1
                 then (if i = int (length images) - 1 then 0 else i + 1)
                 else (if i = 0 then int (length images) - 1 else i - 1))
         \<and> (\<exists>j. changeImage direction images i = Some j
                  \<and> 0 \<le> j \<and> j < int (length images))"
proof -
  define n where "n = int (length images)"
  have n: "0 < n" using assms(1) by (simp add: n_def)
  have i: "0 \<le> i" "i < n" using assms by (simp_all add: n_def)
  have sum: "0 \<le> i + direction + n" using assms(4) i n by auto
  have eq: "changeImage direction images i = Some ((i + direction + n) mod n)"
    unfolding changeImage_def n_def [symmetric] using sum n by (rule js_rem_nonneg)
  have val: "(i + direction + n) mod n =
      (if direction = 1 then (if i = n - 1 then 0 else i + 1)
       else (if i = 0 then n - 1 else i - 1))"
  proof (cases "direction = 1")
    case True
    show ?thesis
    proof (cases "i = n - 1")
      case True
      with \<open>direction = 1\<close> show ?thesis by simp
    next
      case False
      then have "i + 1 < n" using i by simp
      then have "(i + 1) mod n = i + 1" using i by simp
      with \<open>direction = 1\<close> False show ?thesis by simp
    qed
  next
    case False
    then have d: "direction = - 1" using assms(4) by simp
    show ?thesis
    proof (cases "i = 0")
      case True
      have "(- 1) mod n = n - 1" using n by (simp add: zmod_minus1)
      with d True show ?thesis by simp
    next
      case False
      then have "0 \<le> i - 1" "i - 1 < n" using i by simp_all
      then have "(i - 1) mod n = i - 1" by simp
      with d False show ?thesis by simp
    qed
  qed
  have range: "0 \<le> (i + direction + n) mod n" "(i + direction + n) mod n < n"
    using n by simp_all
  show ?thesis using eq val range unfolding n_def by simp
qed

theorem changeImage_in_range_witness:
  "three_slides \<noteq> [] \<and> (0::int) \<le> 2 \<and> (2::int) < int (length three_slides)
   \<and> ((1::int) = 1 \<or> (1::int) = - 1)
   \<and> changeImage 1 three_slides 2 = Some 0"
  using changeImage_in_range [of three_slides 2 1]
  by (simp add: three_slides_def)

text \<open>Going back from the first of three slides shows the last.\<close>

lemma changeImage_backwards_example:
  "changeImage (- 1) three_slides 0 = Some 2"
  by (simp add: changeImage_def js_rem_def three_slides_def)

end
